theory Spec2Isabelle
  imports Complex_Main
begin

section \<open>JavaScript values used by the payment storage scripts\<close>

text \<open>
  Numbers. The scripts compute with JavaScript numbers. They are modelled as exact
  real numbers: every arithmetic operation of the source is the exact operation, and
  \<open>NaN\<close> and the infinities do not occur. What the source rounds explicitly, with
  \<open>parseFloat(x.toFixed(2))\<close>, is rounded here by \<open>toFixed2\<close>.

  \<open>Number.prototype.toFixed(2)\<close> works on the magnitude of its argument and puts the
  sign back: for \<open>x \<ge> 0\<close> it takes the integer \<open>n\<close> for which \<open>n / 100 - x\<close> is as
  close to zero as possible, the larger one when there are two. \<open>parseFloat\<close> reads the
  printed decimal back, which is \<open>n / 100\<close>.
\<close>

definition toFixed2 :: "real \<Rightarrow> real" where
  "toFixed2 x =
     (let a = \<bar>x\<bar> * 100;
          n = \<lfloor>a\<rfloor>;
          m = (if a - of_int n < 1 / 2 then n else n + 1)
      in if x < 0 then - (of_int m / 100) else of_int m / 100)"



text \<open>
  Strings. \<open>a || d\<close> on an optional string yields \<open>d\<close> when \<open>a\<close> is \<open>undefined\<close>,
  \<open>null\<close> or the empty string.
\<close>

definition or_else :: "string option \<Rightarrow> string \<Rightarrow> string" where
  "or_else a d = (case a of None \<Rightarrow> d | Some s \<Rightarrow> if s = [] then d else s)"

text \<open>\<open>s.startsWith(p)\<close>.\<close>

definition startsWith :: "string \<Rightarrow> string \<Rightarrow> bool" where
  "startsWith s p = (take (length p) s = p)"

text \<open>\<open>s.split('-')\<close>: the pieces between the dashes, at least one piece.\<close>

fun split_dash :: "string \<Rightarrow> string list" where
  "split_dash [] = [[]]"
| "split_dash (c # cs) =
     (if c = CHR ''-'' then [] # split_dash cs
      else (case split_dash cs of
              [] \<Rightarrow> [[c]]
            | p # ps \<Rightarrow> (c # p) # ps))"

text \<open>\<open>xs[i]\<close> read into a template string or handed to \<open>parseInt\<close>: a missing element
  is \<open>undefined\<close>, which both print as the text \<open>undefined\<close>.\<close>

definition elem_str :: "string list \<Rightarrow> nat \<Rightarrow> string" where
  "elem_str xs i = (if i < length xs then xs ! i else ''undefined'')"

text \<open>
  \<open>parseInt(s)\<close> without a radix: leading white space is skipped, a sign is read, a
  prefix \<open>0x\<close> or \<open>0X\<close> selects base sixteen, and the longest run of digits of the base is
  the value. With no digit the result is \<open>NaN\<close>, here \<open>None\<close>.
\<close>

definition is_space :: "char \<Rightarrow> bool" where
  "is_space c = (c \<in> set [CHR '' '', CHR 0x09, CHR 0x0A, CHR 0x0B, CHR 0x0C, CHR 0x0D])"

definition digit_val :: "nat \<Rightarrow> char \<Rightarrow> nat option" where
  "digit_val base c =
     (let k = of_char c :: nat;
          v = (if 48 \<le> k \<and> k \<le> 57 then Some (k - 48)
               else if 97 \<le> k \<and> k \<le> 122 then Some (k - 87)
               else if 65 \<le> k \<and> k \<le> 90 then Some (k - 55)
               else None)
      in case v of None \<Rightarrow> None | Some d \<Rightarrow> if d < base then Some d else None)"

fun digits_prefix :: "nat \<Rightarrow> string \<Rightarrow> nat option \<Rightarrow> nat option" where
  "digits_prefix base [] acc = acc"
| "digits_prefix base (c # cs) acc =
     (case digit_val base c of
        None \<Rightarrow> acc
      | Some d \<Rightarrow> digits_prefix base cs
                    (Some ((case acc of None \<Rightarrow> 0 | Some a \<Rightarrow> a * base) + d)))"

definition parse_unsigned :: "string \<Rightarrow> nat option" where
  "parse_unsigned s =
     (if startsWith s ''0x'' \<or> startsWith s ''0X''
      then digits_prefix 16 (drop 2 s) None
      else digits_prefix 10 s None)"

definition parseInt :: "string \<Rightarrow> int option" where
  "parseInt s =
     (let t = dropWhile is_space s
      in case t of
           [] \<Rightarrow> None
         | c # cs \<Rightarrow>
             if c = CHR ''-'' then map_option (\<lambda>n. - int n) (parse_unsigned cs)
             else if c = CHR ''+'' then map_option int (parse_unsigned cs)
             else map_option int (parse_unsigned t))"

text \<open>\<open>Math.max(...xs)\<close> on a non-empty list: \<open>NaN\<close> as soon as one argument is.\<close>

fun math_max :: "int option list \<Rightarrow> int option" where
  "math_max [] = None"
| "math_max [x] = x"
| "math_max (x # y # ys) =
     (case (x, math_max (y # ys)) of
        (Some a, Some b) \<Rightarrow> Some (max a b)
      | _ \<Rightarrow> None)"

text \<open>\<open>String(n)\<close> for an integer, and for \<open>NaN\<close>.\<close>

fun string_of_nat :: "nat \<Rightarrow> string" where
  "string_of_nat n =
     (if n < 10 then [char_of (48 + n)]
      else string_of_nat (n div 10) @ [char_of (48 + n mod 10)])"

declare string_of_nat.simps [simp del]

definition string_of_int :: "int \<Rightarrow> string" where
  "string_of_int i = (if i < 0 then CHR ''-'' # string_of_nat (nat (- i)) else string_of_nat (nat i))"

definition string_of_num :: "int option \<Rightarrow> string" where
  "string_of_num v = (case v of None \<Rightarrow> ''NaN'' | Some i \<Rightarrow> string_of_int i)"

text \<open>\<open>s.padStart(n, '0')\<close>.\<close>

definition padStart0 :: "nat \<Rightarrow> string \<Rightarrow> string" where
  "padStart0 n s = replicate (n - length s) CHR ''0'' @ s"

text \<open>
  \<open>xs.findIndex(P)\<close> is the first position whose element satisfies \<open>P\<close>, or \<open>-1\<close>, here
  \<open>None\<close>. \<open>xs[i] = v\<close> then replaces that element; at \<open>-1\<close> it sets a property named
  \<open>"-1"\<close> on the array, which is no element and which \<open>JSON.stringify\<close> does not write,
  so the stored list is the old one.
\<close>

fun findIndex :: "('a \<Rightarrow> bool) \<Rightarrow> 'a list \<Rightarrow> nat option" where
  "findIndex P [] = None"
| "findIndex P (x # xs) = (if P x then Some 0 else map_option Suc (findIndex P xs))"

definition assign_at :: "'a list \<Rightarrow> nat option \<Rightarrow> 'a \<Rightarrow> 'a list" where
  "assign_at xs i v = (case i of None \<Rightarrow> xs | Some k \<Rightarrow> xs[k := v])"

section \<open>The enhanced payment storage (payment-storage-test.js)\<close>

subsection \<open>Stored records\<close>

text \<open>
  Each kind of object the script keeps in \<open>localStorage\<close> is a record with the
  properties of the source; the fields carry a short prefix where two kinds of object
  use the same property name. Identifiers, months, dates and statuses are the strings
  of the source.
\<close>

record utility_rates =
  electricity_rate :: real
  water_rate :: real

text \<open>The argument of \<open>updateUtilityRates\<close>: an object that has either property or not.\<close>

record rates_patch =
  patch_electricity_rate :: "real option"
  patch_water_rate :: "real option"

record bill =
  bill_id :: string
  bill_tenantId :: string
  bill_month :: string
  electricity_kwh :: real
  bill_electricity_rate :: real
  electricity_amount :: real
  water_cubic :: real
  bill_water_rate :: real
  water_amount :: real
  total_amount :: real
  bill_paid_amount :: real
  bill_status :: string
  bill_createdDate :: string
  bill_dueDate :: string
  bill_payments :: "string list"

record rent_status =
  rs_id :: string
  rs_tenantId :: string
  rs_month :: string
  required_amount :: real
  rs_paid_amount :: real
  remaining_amount :: real
  rs_status :: string
  rs_payments :: "string list"
  rs_createdDate :: string
  rs_dueDate :: string

record payment =
  pay_id :: string
  payment_type :: string
  pay_billId :: "string option"
  pay_tenantId :: string
  pay_tenantName :: string
  pay_unitNumber :: string
  pay_amount :: real
  pay_month :: string
  pay_method :: string
  pay_status :: string
  pay_reference :: string
  pay_submittedDate :: string
  pay_paidDate :: "string option"
  pay_notes :: string
  pay_adminNotes :: string
  pay_metadata :: string

text \<open>
  A calendar date in local time, as \<open>getFullYear()\<close>, \<open>getMonth()\<close> (0 for January)
  and \<open>getDate()\<close> read it off a \<open>Date\<close>. The time of day and the time zone are not
  modelled.
\<close>

record jsdate =
  getFullYear :: int
  getMonth :: int
  getDate :: int

text \<open>
  An entry of the \<open>tenants\<close> list, which the tenant pages write. \<open>rentAmount\<close> is what
  \<open>parseFloat\<close> makes of the stored text (\<open>None\<close> when it is no number); the lease
  dates are the dates \<open>new Date\<close> makes of the stored texts (\<open>None\<close> when the property
  is empty or missing).
\<close>

record tenant_entry =
  username :: string
  name :: string
  unitAssigned :: string
  rentAmount :: "real option"
  email :: "string option"
  contactNumber :: "string option"
  leaseStart :: "jsdate option"
  leaseEnd :: "jsdate option"

text \<open>What \<open>getCurrentTenant\<close> and \<open>getCurrentTenantById\<close> return.\<close>

record tenant_info =
  tenant_id :: string
  tenant_name :: string
  tenant_unit :: string
  monthlyRent :: real
  tenant_email :: string
  tenant_contactNumber :: string

text \<open>
  The storage. The script calls \<open>init()\<close> when it is loaded, which stores an empty list
  under each list key and the default rates under the rates key if the key is missing;
  from then on every key is present and \<open>init()\<close> changes nothing. The model is the
  storage after loading: each key holds its value. \<open>session\<close> is the user name of the
  stored session, if there is one.
\<close>

record store =
  payments :: "payment list"
  bills :: "bill list"
  rent_statuses :: "rent_status list"
  rates :: utility_rates
  session :: "string option"
  tenants :: "tenant_entry list"

text \<open>
  What a call reads from outside the storage: the clock (\<open>new Date().toISOString()\<close>
  and \<open>Date.now()\<close>) and \<open>Math.floor(Math.random() * 10000)\<close>.
\<close>

record env =
  now_iso :: string
  now_ms :: nat
  random10000 :: nat

subsection \<open>Utility rates\<close>

definition getUtilityRates :: "store \<Rightarrow> utility_rates" where
  "getUtilityRates s = rates s"

definition updateUtilityRates :: "store \<Rightarrow> rates_patch \<Rightarrow> utility_rates \<times> store" where
  "updateUtilityRates s newRates =
     (let currentRates = getUtilityRates s;
          updatedRates = \<lparr>
            electricity_rate = (case patch_electricity_rate newRates of
                                  None \<Rightarrow> electricity_rate currentRates | Some r \<Rightarrow> r),
            water_rate = (case patch_water_rate newRates of
                            None \<Rightarrow> water_rate currentRates | Some r \<Rightarrow> r) \<rparr>
      in (updatedRates, s\<lparr>rates := updatedRates\<rparr>))"

subsection \<open>Utility bills\<close>

definition getAllBills :: "store \<Rightarrow> bill list" where
  "getAllBills s = bills s"

definition getBillById :: "store \<Rightarrow> string \<Rightarrow> bill option" where
  "getBillById s billId = find (\<lambda>b. bill_id b = billId) (getAllBills s)"

definition getBillForMonth :: "store \<Rightarrow> string \<Rightarrow> string \<Rightarrow> bill option" where
  "getBillForMonth s tenantId month =
     find (\<lambda>b. bill_tenantId b = tenantId \<and> bill_month b = month) (getAllBills s)"

text \<open>The number \<open>lastId\<close> that the three id generators compute from the stored ids.\<close>

definition last_id :: "string list \<Rightarrow> int option" where
  "last_id ids =
     (if length ids > 0
      then math_max (map (\<lambda>i. parseInt (elem_str (split_dash i) 1)) ids)
      else Some 0)"

definition next_id :: "string \<Rightarrow> string list \<Rightarrow> string" where
  "next_id prefix ids =
     prefix @ padStart0 4 (string_of_num (map_option (\<lambda>n. n + 1) (last_id ids)))"

definition generateBillId :: "store \<Rightarrow> string" where
  "generateBillId s = next_id ''BILL-'' (map bill_id (getAllBills s))"

definition getBillDueDate :: "string \<Rightarrow> string" where
  "getBillDueDate month =
     (let parts = split_dash month
      in elem_str parts 0 @ ''-'' @ elem_str parts 1 @ ''-15'')"

definition generateBill :: "store \<Rightarrow> env \<Rightarrow> string \<Rightarrow> string \<Rightarrow> real \<Rightarrow> real \<Rightarrow> bill \<times> store" where
  "generateBill s e tenantId month kwh cubic =
     (let bs = getAllBills s;
          rs = getUtilityRates s;
          existingBill = find (\<lambda>b. bill_tenantId b = tenantId \<and> bill_month b = month) bs;
          e_amount = toFixed2 (kwh * electricity_rate rs);
          w_amount = toFixed2 (cubic * water_rate rs);
          t_amount = toFixed2 (e_amount + w_amount);
          b = \<lparr> bill_id = (case existingBill of Some x \<Rightarrow> bill_id x | None \<Rightarrow> generateBillId s),
                bill_tenantId = tenantId,
                bill_month = month,
                electricity_kwh = kwh,
                bill_electricity_rate = electricity_rate rs,
                electricity_amount = e_amount,
                water_cubic = cubic,
                bill_water_rate = water_rate rs,
                water_amount = w_amount,
                total_amount = t_amount,
                bill_paid_amount = (case existingBill of Some x \<Rightarrow> bill_paid_amount x | None \<Rightarrow> 0),
                bill_status = (case existingBill of Some x \<Rightarrow> bill_status x | None \<Rightarrow> ''unpaid''),
                bill_createdDate = (case existingBill of Some x \<Rightarrow> bill_createdDate x | None \<Rightarrow> now_iso e),
                bill_dueDate = getBillDueDate month,
                bill_payments = (case existingBill of Some x \<Rightarrow> bill_payments x | None \<Rightarrow> []) \<rparr>;
          bs' = (case existingBill of
                   Some x \<Rightarrow> assign_at bs (findIndex (\<lambda>y. bill_id y = bill_id x) bs) b
                 | None \<Rightarrow> bs @ [b])
      in (b, s\<lparr>bills := bs'\<rparr>))"

text \<open>
  The body of \<open>updateBillStatus\<close> on the bill it found (lines 250 to 261): add the
  amount, record the payment id, then set the status, capping a paid bill at its total.
\<close>

definition bill_apply :: "bill \<Rightarrow> real \<Rightarrow> string \<Rightarrow> bill" where
  "bill_apply b paidAmount paymentId =
     (let b1 = b\<lparr> bill_paid_amount := toFixed2 (bill_paid_amount b + paidAmount),
                  bill_payments := bill_payments b @ [paymentId] \<rparr>
      in if bill_paid_amount b1 \<ge> total_amount b1
         then b1\<lparr> bill_status := ''paid'', bill_paid_amount := total_amount b1 \<rparr>
         else if bill_paid_amount b1 > 0
         then b1\<lparr> bill_status := ''partial'' \<rparr>
         else b1\<lparr> bill_status := ''unpaid'' \<rparr>)"

definition updateBillStatus :: "store \<Rightarrow> string \<Rightarrow> real \<Rightarrow> string \<Rightarrow> bill option \<times> store" where
  "updateBillStatus s billId paidAmount paymentId =
     (let bs = getAllBills s
      in case find (\<lambda>b. bill_id b = billId) bs of
           None \<Rightarrow> (None, s)
         | Some b \<Rightarrow>
             (let b' = bill_apply b paidAmount paymentId;
                  index = findIndex (\<lambda>x. bill_id x = billId) bs
              in (Some b', s\<lparr>bills := assign_at bs index b'\<rparr>)))"

subsection \<open>Tenants\<close>

definition tenant_view :: "tenant_entry \<Rightarrow> tenant_info" where
  "tenant_view t =
     \<lparr> tenant_id = username t,
       tenant_name = name t,
       tenant_unit = unitAssigned t,
       monthlyRent = (case rentAmount t of None \<Rightarrow> 0 | Some r \<Rightarrow> r),
       tenant_email = or_else (email t) [],
       tenant_contactNumber = or_else (contactNumber t) [] \<rparr>"

definition getCurrentTenant :: "store \<Rightarrow> tenant_info option" where
  "getCurrentTenant s =
     (case session s of
        None \<Rightarrow> None
      | Some user \<Rightarrow>
          (case find (\<lambda>t. username t = user) (tenants s) of
             None \<Rightarrow> None
           | Some t \<Rightarrow> Some (tenant_view t)))"

definition getCurrentTenantById :: "store \<Rightarrow> string \<Rightarrow> tenant_info option" where
  "getCurrentTenantById s tenantId =
     (case find (\<lambda>t. username t = tenantId) (tenants s) of
        None \<Rightarrow> None
      | Some t \<Rightarrow> Some (tenant_view t))"

subsection \<open>Rent status\<close>

definition getAllRentStatuses :: "store \<Rightarrow> rent_status list" where
  "getAllRentStatuses s = rent_statuses s"

definition generateRentStatusId :: "store \<Rightarrow> string" where
  "generateRentStatusId s = next_id ''RENT-'' (map rs_id (getAllRentStatuses s))"

definition getRentDueDate :: "string \<Rightarrow> string" where
  "getRentDueDate month =
     (let parts = split_dash month
      in elem_str parts 0 @ ''-'' @ elem_str parts 1 @ ''-01'')"

definition getRentStatus :: "store \<Rightarrow> env \<Rightarrow> string \<Rightarrow> string \<Rightarrow> rent_status \<times> store" where
  "getRentStatus s e tenantId month =
     (let statuses = rent_statuses s
      in case find (\<lambda>x. rs_tenantId x = tenantId \<and> rs_month x = month) statuses of
           Some st \<Rightarrow> (st, s)
         | None \<Rightarrow>
             (let rent = (case getCurrentTenantById s tenantId of
                            Some t \<Rightarrow> monthlyRent t | None \<Rightarrow> 0);
                  st = \<lparr> rs_id = generateRentStatusId s,
                         rs_tenantId = tenantId,
                         rs_month = month,
                         required_amount = rent,
                         rs_paid_amount = 0,
                         remaining_amount = rent,
                         rs_status = ''unpaid'',
                         rs_payments = [],
                         rs_createdDate = now_iso e,
                         rs_dueDate = getRentDueDate month \<rparr>
              in (st, s\<lparr>rent_statuses := statuses @ [st]\<rparr>)))"

text \<open>
  The body of \<open>updateRentStatus\<close> on the status it works on (lines 220 to 232): add the
  amount, recompute what remains, record the payment id, then set the status.
\<close>

definition rent_apply :: "rent_status \<Rightarrow> real \<Rightarrow> string \<Rightarrow> rent_status" where
  "rent_apply st paidAmount paymentId =
     (let paid = toFixed2 (rs_paid_amount st + paidAmount);
          st1 = st\<lparr> rs_paid_amount := paid,
                    remaining_amount := toFixed2 (required_amount st - paid),
                    rs_payments := rs_payments st @ [paymentId] \<rparr>
      in if remaining_amount st1 \<le> 0
         then st1\<lparr> rs_status := ''paid'', remaining_amount := 0 \<rparr>
         else if rs_paid_amount st1 > 0
         then st1\<lparr> rs_status := ''partial'' \<rparr>
         else st1\<lparr> rs_status := ''unpaid'' \<rparr>)"

text \<open>
  \<open>updateRentStatus\<close> reads the list once. When the list has no status for the tenant
  and month it lets \<open>getRentStatus\<close> create one, which stores a longer list; the list
  read at the start does not hold the new status, and it is this list, assigned at the
  position \<open>findIndex\<close> finds in it, that is stored at the end.
\<close>

definition updateRentStatus ::
  "store \<Rightarrow> env \<Rightarrow> string \<Rightarrow> string \<Rightarrow> real \<Rightarrow> string \<Rightarrow> rent_status \<times> store" where
  "updateRentStatus s e tenantId month paidAmount paymentId =
     (let statuses = getAllRentStatuses s;
          (st, s1) = (case find (\<lambda>x. rs_tenantId x = tenantId \<and> rs_month x = month) statuses of
                        Some x \<Rightarrow> (x, s)
                      | None \<Rightarrow> getRentStatus s e tenantId month);
          st' = rent_apply st paidAmount paymentId;
          index = findIndex (\<lambda>x. rs_id x = rs_id st') statuses
      in (st', s1\<lparr>rent_statuses := assign_at statuses index st'\<rparr>))"

subsection \<open>Payments\<close>

definition getAllPayments :: "store \<Rightarrow> payment list" where
  "getAllPayments s = payments s"

definition getPaymentById :: "store \<Rightarrow> string \<Rightarrow> payment option" where
  "getPaymentById s pid = find (\<lambda>p. pay_id p = pid) (getAllPayments s)"

definition generatePaymentId :: "store \<Rightarrow> string" where
  "generatePaymentId s = next_id ''PAY-'' (map pay_id (getAllPayments s))"

definition generateReference :: "env \<Rightarrow> string \<Rightarrow> string" where
  "generateReference e method =
     (let m = map (\<lambda>c. if (65::nat) \<le> of_char c \<and> of_char c \<le> (90::nat)
                        then char_of (of_char c + (32::nat)) else c) method;
          prefix = (if m = ''gcash'' then ''GC''
                    else if m = ''bpi'' then ''BPI''
                    else if m = ''cash'' then ''CSH''
                    else ''REF'')
      in prefix @ ''-'' @ string_of_nat (now_ms e) @ ''-'' @ string_of_nat (random10000 e))"

text \<open>The argument of \<open>createBillPayment\<close>; \<open>pd_amount\<close> is \<open>parseFloat(paymentData.amount)\<close>.\<close>

record payment_data =
  pd_billId :: string
  pd_amount :: real
  pd_method :: string
  pd_status :: "string option"
  pd_reference :: "string option"
  pd_notes :: "string option"
  pd_metadata :: "string option"

definition createBillPayment :: "store \<Rightarrow> env \<Rightarrow> payment_data \<Rightarrow> payment option \<times> store" where
  "createBillPayment s e paymentData =
     (let ps = getAllPayments s
      in case getCurrentTenant s of
           None \<Rightarrow> (None, s)
         | Some tenant \<Rightarrow>
             (case getBillById s (pd_billId paymentData) of
                None \<Rightarrow> (None, s)
              | Some b \<Rightarrow>
                  (let p = \<lparr> pay_id = generatePaymentId s,
                             payment_type = ''bill'',
                             pay_billId = Some (bill_id b),
                             pay_tenantId = tenant_id tenant,
                             pay_tenantName = tenant_name tenant,
                             pay_unitNumber = tenant_unit tenant,
                             pay_amount = pd_amount paymentData,
                             pay_month = bill_month b,
                             pay_method = pd_method paymentData,
                             pay_status = or_else (pd_status paymentData) ''pending'',
                             pay_reference = or_else (pd_reference paymentData)
                                               (generateReference e (pd_method paymentData)),
                             pay_submittedDate = now_iso e,
                             pay_paidDate = None,
                             pay_notes = or_else (pd_notes paymentData)
                                           (''Payment for '' @ bill_month b @ '' utility bills''),
                             pay_adminNotes = [],
                             pay_metadata = or_else (pd_metadata paymentData) ''{}'' \<rparr>;
                       s1 = s\<lparr>payments := ps @ [p]\<rparr>;
                       s2 = (if pay_status p = ''verified''
                             then snd (updateBillStatus s1 (bill_id b) (pay_amount p) (pay_id p))
                             else s1)
                   in (Some p, s2))))"

text \<open>
  \<open>updatePaymentStatus\<close>. A payment of type \<open>bill\<close> carries its bill id; where the
  property is missing the \<open>undefined\<close> it reads matches no bill.
\<close>

definition apply_to_target :: "store \<Rightarrow> env \<Rightarrow> payment \<Rightarrow> real \<Rightarrow> store" where
  "apply_to_target s e p delta =
     (if payment_type p = ''rent''
      then snd (updateRentStatus s e (pay_tenantId p) (pay_month p) delta (pay_id p))
      else if payment_type p = ''bill''
      then (case pay_billId p of
              None \<Rightarrow> s
            | Some billId \<Rightarrow> snd (updateBillStatus s billId delta (pay_id p)))
      else s)"

definition updatePaymentStatus ::
  "store \<Rightarrow> env \<Rightarrow> string \<Rightarrow> string \<Rightarrow> string \<Rightarrow> payment option \<times> store" where
  "updatePaymentStatus s e paymentId status adminNotes =
     (let ps = getAllPayments s
      in case find (\<lambda>p. pay_id p = paymentId) ps of
           None \<Rightarrow> (None, s)
         | Some p0 \<Rightarrow>
             (let oldStatus = pay_status p0;
                  p1 = p0\<lparr> pay_status := status, pay_adminNotes := adminNotes \<rparr>;
                  (p2, s1) =
                    (if status = ''verified'' \<or> status = ''completed''
                     then (let p = p1\<lparr> pay_paidDate := Some (now_iso e) \<rparr>
                           in (p, apply_to_target s e p (pay_amount p)))
                     else if status = ''rejected'' \<and> oldStatus = ''verified''
                     then (p1, apply_to_target s e p1 (- pay_amount p1))
                     else (p1, s));
                  index = findIndex (\<lambda>p. pay_id p = paymentId) ps
              in (Some p2, s1\<lparr>payments := assign_at ps index p2\<rparr>)))"

section \<open>The payment storage with duplicate prevention (full-payment-function.js)\<close>

subsection \<open>Dates\<close>

definition is_leap_year :: "int \<Rightarrow> bool" where
  "is_leap_year y = (y mod 4 = 0 \<and> (y mod 100 \<noteq> 0 \<or> y mod 400 = 0))"

definition days_in_month :: "int \<Rightarrow> int \<Rightarrow> int" where
  "days_in_month y m =
     (if m = 1 then (if is_leap_year y then 29 else 28)
      else if m = 3 \<or> m = 5 \<or> m = 8 \<or> m = 10 then 30
      else 31)"

text \<open>
  \<open>d.setMonth(m)\<close> keeps the day of the month and moves to month \<open>m\<close> of the year of
  \<open>d\<close>, where \<open>m\<close> outside 0 to 11 carries into the year. The result is the first day
  of that month plus \<open>getDate() - 1\<close> days: a day the month does not have carries into
  the next month. The day of a \<open>Date\<close> is between 1 and 31, so one carry is enough.
\<close>

definition setMonth :: "jsdate \<Rightarrow> int \<Rightarrow> jsdate" where
  "setMonth d m =
     (let y = getFullYear d + m div 12;
          mn = m mod 12;
          dim = days_in_month y mn
      in if getDate d \<le> dim
         then \<lparr> getFullYear = y, getMonth = mn, getDate = getDate d \<rparr>
         else if mn = 11
         then \<lparr> getFullYear = y + 1, getMonth = 0, getDate = getDate d - dim \<rparr>
         else \<lparr> getFullYear = y, getMonth = mn + 1, getDate = getDate d - dim \<rparr>)"

subsection \<open>Stored records\<close>

record payment2 =
  p2_id :: string
  p2_tenantId :: string
  p2_tenantName :: string
  p2_unitNumber :: string
  p2_amount :: real
  p2_method :: string
  p2_status :: string
  p2_reference :: string
  paymentType :: string
  billDetails :: string
  dueDate :: "string option"
  p2_submittedDate :: string
  p2_paidDate :: "string option"
  proofUrl :: "string option"
  p2_notes :: string
  p2_adminNotes :: string
  p2_metadata :: string

record tenant_info2 = tenant_info +
  tenant_leaseStart :: "jsdate option"
  tenant_leaseEnd :: "jsdate option"

text \<open>The storage of this script after loading, and the date \<open>new Date()\<close> gives.\<close>

record store2 =
  payments2 :: "payment2 list"
  session2 :: "string option"
  tenants2 :: "tenant_entry list"

definition getCurrentTenant2 :: "store2 \<Rightarrow> tenant_info2 option" where
  "getCurrentTenant2 s =
     (case session2 s of
        None \<Rightarrow> None
      | Some user \<Rightarrow>
          (case find (\<lambda>t. username t = user) (tenants2 s) of
             None \<Rightarrow> None
           | Some t \<Rightarrow>
               Some \<lparr> tenant_id = username t,
                      tenant_name = name t,
                      tenant_unit = unitAssigned t,
                      monthlyRent = (case rentAmount t of None \<Rightarrow> 0 | Some r \<Rightarrow> r),
                      tenant_email = or_else (email t) [],
                      tenant_contactNumber = or_else (contactNumber t) [],
                      tenant_leaseStart = leaseStart t,
                      tenant_leaseEnd = leaseEnd t \<rparr>))"


subsection \<open>The payment period\<close>

text \<open>The template string \<open>`${year}-${String(month + 1).padStart(2, '0')}`\<close>.\<close>

definition format_period :: "int \<Rightarrow> int \<Rightarrow> string" where
  "format_period y m = string_of_int y @ ''-'' @ padStart0 2 (string_of_int (m + 1))"

definition getCurrentPaymentPeriod :: "store2 \<Rightarrow> jsdate \<Rightarrow> string option" where
  "getCurrentPaymentPeriod s today =
     (case getCurrentTenant2 s of
        None \<Rightarrow> None
      | Some tenant \<Rightarrow>
          (case tenant_leaseStart tenant of
             None \<Rightarrow> None
           | Some start \<Rightarrow>
               (let monthsSinceStart = (getFullYear today - getFullYear start) * 12
                                        + (getMonth today - getMonth start);
                    periodStart = setMonth start (getMonth start + monthsSinceStart)
                in Some (format_period (getFullYear periodStart) (getMonth periodStart)))))"

subsection \<open>The duplicate check\<close>




section \<open>Runs and observations\<close>

text \<open>
  The lookup that \<open>getRentStatus\<close> and \<open>updateRentStatus\<close> both start with: the first
  stored status of the tenant and month.
\<close>

definition rentStatusFor :: "store \<Rightarrow> string \<Rightarrow> string \<Rightarrow> rent_status option" where
  "rentStatusFor s tenantId month =
     find (\<lambda>x. rs_tenantId x = tenantId \<and> rs_month x = month) (getAllRentStatuses s)"









text \<open>
  The period as the specification words it: the lease-start month advanced by
  \<open>(today.year - start.year) * 12 + (today.month - start.month)\<close> whole months,
  formatted \<open>YYYY-MM\<close>.
\<close>

definition months_elapsed :: "jsdate \<Rightarrow> jsdate \<Rightarrow> int" where
  "months_elapsed start today =
     (getFullYear today - getFullYear start) * 12 + (getMonth today - getMonth start)"

definition spec_current_period :: "jsdate \<Rightarrow> jsdate \<Rightarrow> string" where
  "spec_current_period start today =
     (let k = getFullYear start * 12 + getMonth start + months_elapsed start today
      in format_period (k div 12) (k mod 12))"

text \<open>
  The ids a list of records may carry for the id generators to work: no id twice, and
  every id with a number after its first dash.
\<close>

definition is_digit :: "char \<Rightarrow> bool" where
  "is_digit c = (48 \<le> (of_char c :: nat) \<and> (of_char c :: nat) \<le> 57)"

definition ids_ok :: "string list \<Rightarrow> bool" where
  "ids_ok ids = (distinct ids \<and> list_all (\<lambda>i. parseInt (elem_str (split_dash i) 1) \<noteq> None) ids)"

section \<open>Example data\<close>

text \<open>
  The tenant of the specification's scenario (monthly rent 15000, lease from
  2024-01-15), a rent status and a utility bill of March 2024, and payments: a pending
  rent payment, a pending bill payment larger than the bill, a pending rent payment of
  half a cent, and a completed bill payment.
\<close>

definition ex_env :: env where
  "ex_env = \<lparr> now_iso = ''2024-03-20T08:00:00.000Z'', now_ms = 1710921600000, random10000 = 4242 \<rparr>"

definition ex_tenant :: tenant_entry where
  "ex_tenant = \<lparr> username = ''ana'', name = ''Ana Cruz'', unitAssigned = ''U001'',
                  rentAmount = Some 15000, email = None, contactNumber = None,
                  leaseStart = Some \<lparr> getFullYear = 2024, getMonth = 0, getDate = 15 \<rparr>,
                  leaseEnd = None \<rparr>"

definition ex_rent_status :: rent_status where
  "ex_rent_status = \<lparr> rs_id = ''RENT-0001'', rs_tenantId = ''ana'', rs_month = ''2024-03'',
                       required_amount = 15000, rs_paid_amount = 0, remaining_amount = 15000,
                       rs_status = ''unpaid'', rs_payments = [],
                       rs_createdDate = ''2024-03-01T08:00:00.000Z'', rs_dueDate = ''2024-03-01'' \<rparr>"

definition ex_bill :: bill where
  "ex_bill = \<lparr> bill_id = ''BILL-0001'', bill_tenantId = ''ana'', bill_month = ''2024-03'',
                electricity_kwh = 120, bill_electricity_rate = 23 / 2, electricity_amount = 1380,
                water_cubic = 10, bill_water_rate = 25, water_amount = 250,
                total_amount = 1630, bill_paid_amount = 0, bill_status = ''unpaid'',
                bill_createdDate = ''2024-03-05T08:00:00.000Z'', bill_dueDate = ''2024-03-15'',
                bill_payments = [] \<rparr>"

text \<open>A bill of a month without consumption: its total is zero.\<close>

definition ex_zero_bill :: bill where
  "ex_zero_bill = \<lparr> bill_id = ''BILL-0002'', bill_tenantId = ''ana'', bill_month = ''2024-04'',
                     electricity_kwh = 0, bill_electricity_rate = 23 / 2, electricity_amount = 0,
                     water_cubic = 0, bill_water_rate = 25, water_amount = 0,
                     total_amount = 0, bill_paid_amount = 0, bill_status = ''unpaid'',
                     bill_createdDate = ''2024-04-05T08:00:00.000Z'', bill_dueDate = ''2024-04-15'',
                     bill_payments = [] \<rparr>"

definition ex_payment :: "string \<Rightarrow> string \<Rightarrow> string option \<Rightarrow> real \<Rightarrow> string \<Rightarrow> payment" where
  "ex_payment pid ptype billId amount status =
     \<lparr> pay_id = pid, payment_type = ptype, pay_billId = billId, pay_tenantId = ''ana'',
       pay_tenantName = ''Ana Cruz'', pay_unitNumber = ''U001'', pay_amount = amount,
       pay_month = ''2024-03'', pay_method = ''gcash'', pay_status = status,
       pay_reference = ''GC-1710921600000-4242'', pay_submittedDate = ''2024-03-20T08:00:00.000Z'',
       pay_paidDate = None, pay_notes = [], pay_adminNotes = [], pay_metadata = ''{}'' \<rparr>"

definition ex_rent_payment :: payment where
  "ex_rent_payment = ex_payment ''PAY-0001'' ''rent'' None 10000 ''pending''"

definition ex_bill_overpayment :: payment where
  "ex_bill_overpayment = ex_payment ''PAY-0002'' ''bill'' (Some ''BILL-0001'') 2000 ''pending''"

definition ex_half_cent_payment :: payment where
  "ex_half_cent_payment = ex_payment ''PAY-0003'' ''rent'' None (5 / 1000) ''pending''"

definition ex_completed_payment :: payment where
  "ex_completed_payment = ex_payment ''PAY-0004'' ''bill'' (Some ''BILL-0001'') 630 ''completed''"

definition ex_store :: store where
  "ex_store = \<lparr> payments = [ex_rent_payment, ex_bill_overpayment, ex_half_cent_payment],
                 bills = [ex_bill, ex_zero_bill],
                 rent_statuses = [ex_rent_status],
                 rates = \<lparr> electricity_rate = 23 / 2, water_rate = 25 \<rparr>,
                 session = Some ''ana'',
                 tenants = [ex_tenant] \<rparr>"

text \<open>The storage in which 630 of the March bill is paid, by one completed payment.\<close>

definition ex_partial_bill :: bill where
  "ex_partial_bill = ex_bill\<lparr> bill_paid_amount := 630, bill_status := ''partial'',
                              bill_payments := [''PAY-0004''] \<rparr>"

definition ex_partial_store :: store where
  "ex_partial_store = ex_store\<lparr> payments := payments ex_store @ [ex_completed_payment],
                                 bills := [ex_partial_bill, ex_zero_bill] \<rparr>"

text \<open>
  For the duplicate check: a calendar date, a stored payment of the tenant with a type,
  a status and a due date, and a storage whose tenant has the given lease start and
  whose payments are the given ones.
\<close>

definition mk_date :: "int \<Rightarrow> int \<Rightarrow> int \<Rightarrow> jsdate" where
  "mk_date y m d = \<lparr> getFullYear = y, getMonth = m, getDate = d \<rparr>"


definition ex_store2 :: "jsdate option \<Rightarrow> payment2 list \<Rightarrow> store2" where
  "ex_store2 start ps =
     \<lparr> payments2 = ps, session2 = Some ''ana'', tenants2 = [ex_tenant\<lparr> leaseStart := start \<rparr>] \<rparr>"

section \<open>Facts about rounding and lists\<close>










lemma find_SomeD: "find P xs = Some x \<Longrightarrow> P x \<and> x \<in> set xs"
  by (induction xs) (auto split: if_splits)



lemma map_key_assign:
  "f y = c \<Longrightarrow> map f (assign_at xs (findIndex (\<lambda>z. f z = c) xs) y) = map f xs"
  by (induction xs) (auto simp: assign_at_def split: option.splits)


lemmas ex_defs = ex_store_def ex_rent_payment_def ex_bill_overpayment_def
  ex_half_cent_payment_def ex_completed_payment_def ex_payment_def ex_bill_def
  ex_zero_bill_def ex_rent_status_def ex_tenant_def ex_env_def

section \<open>Bill payments stay within the total\<close>

lemma bill_apply_keeps:
  "bill_id (bill_apply b a p) = bill_id b"
  "total_amount (bill_apply b a p) = total_amount b"
  "bill_tenantId (bill_apply b a p) = bill_tenantId b"
  "bill_month (bill_apply b a p) = bill_month b"
  by (simp_all add: bill_apply_def Let_def)









section \<open>Rent payments that sum to the required amount\<close>

lemma rent_apply_keeps:
  "rs_id (rent_apply st a p) = rs_id st"
  "rs_tenantId (rent_apply st a p) = rs_tenantId st"
  "rs_month (rent_apply st a p) = rs_month st"
  "required_amount (rent_apply st a p) = required_amount st"
  by (simp_all add: rent_apply_def Let_def)








section \<open>Verifying and rejecting a payment\<close>













lemma updatePaymentStatus_no_reversal:
  assumes "getPaymentById s paymentId = Some p0" and "pay_status p0 \<noteq> ''verified''"
  shows "snd (updatePaymentStatus s e paymentId ''rejected'' n) =
           s\<lparr>payments := assign_at (payments s) (findIndex (\<lambda>p. pay_id p = paymentId) (payments s))
                 (p0\<lparr> pay_status := ''rejected'', pay_adminNotes := n \<rparr>)\<rparr>"
  using assms
  by (simp add: updatePaymentStatus_def getPaymentById_def getAllPayments_def Let_def)







section \<open>Rejecting a payment that is not verified\<close>

text \<open>
  C10. \<open>updatePaymentStatus\<close> reverses only when the status it replaces is exactly
  \<open>verified\<close>: setting any other stored payment to \<open>rejected\<close>, a \<open>completed\<close> or a
  \<open>pending\<close> one among them, changes the payment's status and notes and leaves every
  bill and every rent status as it was, with its paid amount, remaining amount, status
  and list of payments.
\<close>

theorem reject_unverified_leaves_ledger:
  assumes "getPaymentById s paymentId = Some p" and "pay_status p \<noteq> ''verified''"
  shows "fst (updatePaymentStatus s e paymentId ''rejected'' adminNotes)
           = Some (p\<lparr> pay_status := ''rejected'', pay_adminNotes := adminNotes \<rparr>)
         \<and> bills (snd (updatePaymentStatus s e paymentId ''rejected'' adminNotes)) = bills s
         \<and> rent_statuses (snd (updatePaymentStatus s e paymentId ''rejected'' adminNotes))
             = rent_statuses s"
  using assms updatePaymentStatus_no_reversal [OF assms, of e adminNotes]
  by (simp add: updatePaymentStatus_def getPaymentById_def getAllPayments_def Let_def)

text \<open>
  C10, an instance: the completed payment of 630 on the March bill is rejected, and the
  bill keeps its paid amount of 630.
\<close>

theorem reject_unverified_leaves_ledger_witness:
  "getPaymentById ex_partial_store ''PAY-0004'' = Some ex_completed_payment
   \<and> pay_status ex_completed_payment = ''completed''
   \<and> pay_status ex_completed_payment \<noteq> ''verified''
   \<and> bills (snd (updatePaymentStatus ex_partial_store ex_env ''PAY-0004'' ''rejected'' ''bounced''))
        = [ex_partial_bill, ex_zero_bill]
   \<and> bill_paid_amount ex_partial_bill = 630
   \<and> rent_statuses
        (snd (updatePaymentStatus ex_partial_store ex_env ''PAY-0004'' ''rejected'' ''bounced''))
        = rent_statuses ex_partial_store"
proof -
  have g: "getPaymentById ex_partial_store ''PAY-0004'' = Some ex_completed_payment"
    by (simp add: ex_partial_store_def ex_defs getPaymentById_def getAllPayments_def)
  have c: "pay_status ex_completed_payment = ''completed''"
    by (simp add: ex_defs)
  have n: "pay_status ex_completed_payment \<noteq> ''verified''"
    by (simp add: ex_defs)
  have b: "bills ex_partial_store = [ex_partial_bill, ex_zero_bill]"
    and p: "bill_paid_amount ex_partial_bill = 630"
    by (simp_all add: ex_partial_store_def ex_partial_bill_def)
  from reject_unverified_leaves_ledger [OF g n, of ex_env "''bounced''"] g c n b p
  show ?thesis by simp
qed

section \<open>Generating a bill\<close>







section \<open>Changing the rates\<close>

text \<open>
  C9. \<open>updateUtilityRates\<close> writes the rates and nothing else: the list of bills, and
  so every bill looked up by its id with all its fields, is the same after the update.
  A bill carries the rates that were current when \<open>generateBill\<close> built it, and a rate
  update after that leaves the bills as \<open>generateBill\<close> stored them.
\<close>

theorem rate_update_keeps_bills:
  "getAllBills (snd (updateUtilityRates s newRates)) = getAllBills s
   \<and> getBillById (snd (updateUtilityRates s newRates)) billId = getBillById s billId
   \<and> bill_electricity_rate (fst (generateBill s e tenantId month kwh cubic))
       = electricity_rate (getUtilityRates s)
   \<and> bill_water_rate (fst (generateBill s e tenantId month kwh cubic))
       = water_rate (getUtilityRates s)
   \<and> getAllBills (snd (updateUtilityRates (snd (generateBill s e tenantId month kwh cubic)) newRates))
       = getAllBills (snd (generateBill s e tenantId month kwh cubic))"
  by (simp add: updateUtilityRates_def getAllBills_def getBillById_def Let_def generateBill_def)

section \<open>Paying a bill that does not exist\<close>

text \<open>
  C8. When no stored bill has the id of the payment data, \<open>createBillPayment\<close> returns
  \<open>null\<close> and the storage is what it was: no payment is added, and no bill and no rent
  status is touched.
\<close>

theorem createBillPayment_unknown_bill:
  assumes "getBillById s (pd_billId paymentData) = None"
  shows "createBillPayment s e paymentData = (None, s)"
  using assms by (simp add: createBillPayment_def Let_def split: option.splits)

text \<open>C8, an instance: a payment for the bill \<open>BILL-0404\<close>, which is not stored.\<close>

theorem createBillPayment_unknown_bill_witness:
  "getBillById ex_store ''BILL-0404'' = None
   \<and> createBillPayment ex_store ex_env
        \<lparr> pd_billId = ''BILL-0404'', pd_amount = 500, pd_method = ''gcash'', pd_status = None,
          pd_reference = None, pd_notes = None, pd_metadata = None \<rparr> = (None, ex_store)"
proof -
  have h: "getBillById ex_store ''BILL-0404'' = None"
    by (simp add: ex_defs getBillById_def getAllBills_def)
  from createBillPayment_unknown_bill
         [of ex_store "\<lparr> pd_billId = ''BILL-0404'', pd_amount = 500, pd_method = ''gcash'',
                         pd_status = None, pd_reference = None, pd_notes = None,
                         pd_metadata = None \<rparr>" ex_env] h
  show ?thesis by simp
qed

section \<open>The duplicate check\<close>



lemma format_2024: "format_period 2024 1 = ''2024-02''" "format_period 2024 2 = ''2024-03''"
  by code_simp+

lemmas period_defs = getCurrentPaymentPeriod_def getCurrentTenant2_def ex_store2_def ex_tenant_def
  setMonth_def days_in_month_def is_leap_year_def Let_def mk_date_def






section \<open>The current payment period\<close>

lemma days_in_month_ge_28: "28 \<le> days_in_month y m"
  by (simp add: days_in_month_def)

lemma setMonth_day_fits:
  "getDate d \<le> 28 \<Longrightarrow>
   setMonth d m = \<lparr> getFullYear = getFullYear d + m div 12, getMonth = m mod 12,
                   getDate = getDate d \<rparr>"
  using days_in_month_ge_28 [of "getFullYear d + m div 12" "m mod 12"]
  by (simp add: setMonth_def Let_def)

text \<open>
  For a lease that starts on one of the first 28 days of a month the period is the one
  the specification describes.
\<close>

lemma period_matches_spec:
  assumes "getCurrentTenant2 s = Some tenant" and "tenant_leaseStart tenant = Some start"
    and "getDate start \<le> 28"
  shows "getCurrentPaymentPeriod s today = Some (spec_current_period start today)"
proof -
  define k where "k = getMonth start + months_elapsed start today"
  have "(getFullYear start * 12 + k) div 12 = getFullYear start + k div 12"
    and "(getFullYear start * 12 + k) mod 12 = k mod 12"
    by simp_all
  then have "spec_current_period start today
               = format_period (getFullYear start + k div 12) (k mod 12)"
    by (simp add: spec_current_period_def Let_def k_def add.assoc)
  moreover have "getCurrentPaymentPeriod s today
               = Some (format_period (getFullYear start + k div 12) (k mod 12))"
    using assms(1,2) setMonth_day_fits [OF assms(3), of k]
    by (simp add: getCurrentPaymentPeriod_def Let_def k_def months_elapsed_def)
  ultimately show ?thesis by simp
qed

lemma period_without_lease_start:
  assumes "getCurrentTenant2 s = Some tenant" and "tenant_leaseStart tenant = None"
  shows "getCurrentPaymentPeriod s today = None"
  using assms by (simp add: getCurrentPaymentPeriod_def)

text \<open>
  C7. For the lease that starts on 2024-01-15 the period on 2024-03-20 is \<open>2024-03\<close>,
  and without a lease start there is none. For the lease that starts on 2024-01-31 the
  period on 2024-02-10 should be the lease-start month advanced by one month,
  \<open>2024-02\<close>; \<open>setMonth(1)\<close> on the 31st of January gives the 2nd of March, and the
  code answers \<open>2024-03\<close>.
\<close>

theorem current_period_skips_short_month:
  "getCurrentPaymentPeriod (ex_store2 (Some (mk_date 2024 0 15)) []) (mk_date 2024 2 20)
     = Some ''2024-03''
   \<and> getCurrentPaymentPeriod (ex_store2 None []) (mk_date 2024 2 20) = None
   \<and> spec_current_period (mk_date 2024 0 31) (mk_date 2024 1 10) = ''2024-02''
   \<and> getCurrentPaymentPeriod (ex_store2 (Some (mk_date 2024 0 31)) []) (mk_date 2024 1 10)
     = Some ''2024-03''"
  by (simp add: period_defs format_2024 spec_current_period_def months_elapsed_def)

section \<open>Generated ids\<close>

text \<open>
  The theorems about stored bills and rent statuses assume distinct ids. The id
  generators provide them: the number they print is read back by \<open>parseInt\<close>, it is
  larger than every number in use, and so a list of well-formed, distinct ids stays one
  under every operation of the storage.
\<close>

lemma digit_val_digit: "r < 10 \<Longrightarrow> digit_val 10 (char_of (48 + r)) = Some r"
  by (simp add: digit_val_def Let_def)

lemma is_digit_char: "r < 10 \<Longrightarrow> is_digit (char_of (48 + r :: nat))"
  by (simp add: is_digit_def)

lemma is_digit_val: "is_digit c \<Longrightarrow> \<exists>r. digit_val 10 c = Some r"
  by (auto simp: is_digit_def digit_val_def Let_def)

lemma digits_prefix_append:
  "list_all is_digit xs \<Longrightarrow>
   digits_prefix 10 (xs @ ys) acc = digits_prefix 10 ys (digits_prefix 10 xs acc)"
proof (induction xs arbitrary: acc)
  case Nil
  then show ?case by simp
next
  case (Cons x xs)
  then obtain r where "digit_val 10 x = Some r" using is_digit_val by auto
  with Cons show ?case by simp
qed

lemma string_of_nat_digits: "list_all is_digit (string_of_nat n)"
proof (induction n rule: string_of_nat.induct)
  case (1 n)
  show ?case
  proof (cases "n < 10")
    case True
    then show ?thesis by (subst string_of_nat.simps) (simp add: is_digit_char)
  next
    case False
    with 1 have "list_all is_digit (string_of_nat (n div 10))" by simp
    moreover have "is_digit (char_of (48 + n mod 10))" by (rule is_digit_char) simp
    ultimately show ?thesis using False by (subst string_of_nat.simps) simp
  qed
qed

lemma string_of_nat_nonempty: "string_of_nat n \<noteq> []"
  by (subst string_of_nat.simps) simp

lemma digits_prefix_string_of_nat:
  "acc = None \<or> acc = Some 0 \<Longrightarrow> digits_prefix 10 (string_of_nat n) acc = Some n"
proof (induction n arbitrary: acc rule: string_of_nat.induct)
  case (1 n)
  show ?case
  proof (cases "n < 10")
    case True
    with 1(2) show ?thesis
      by (subst string_of_nat.simps) (auto simp: digit_val_digit)
  next
    case False
    have d: "digit_val 10 (char_of (48 + n mod 10)) = Some (n mod 10)"
      by (rule digit_val_digit) simp
    from 1(1) [OF False 1(2)] have ih: "digits_prefix 10 (string_of_nat (n div 10)) acc = Some (n div 10)" .
    show ?thesis
      using False
      by (subst string_of_nat.simps)
         (simp add: digits_prefix_append string_of_nat_digits ih d)
  qed
qed

lemma digits_prefix_zeros:
  "digits_prefix 10 (replicate z (CHR ''0'') @ ys) None
     = digits_prefix 10 ys (if z = 0 then None else Some 0)"
proof -
  have z: "digit_val 10 (CHR ''0'') = Some 0" by (simp add: digit_val_def Let_def)
  have "digits_prefix 10 (replicate z (CHR ''0'')) acc
          = (if z = 0 then acc else Some (case acc of None \<Rightarrow> 0 | Some a \<Rightarrow> a * 10 ^ z))" for acc
    by (induction z arbitrary: acc) (auto simp: z split: option.splits)
  moreover have "list_all is_digit (replicate z (CHR ''0''))"
    by (simp add: list_all_iff is_digit_def)
  ultimately show ?thesis by (simp add: digits_prefix_append)
qed

lemma digits_prefix_padded:
  "digits_prefix 10 (padStart0 k (string_of_nat n)) None = Some n"
  unfolding padStart0_def digits_prefix_zeros
  by (rule digits_prefix_string_of_nat) simp


lemma padded_digits: "list_all is_digit (padStart0 k (string_of_nat n))"
  using string_of_nat_digits [of n]
  by (auto simp: padStart0_def list_all_iff is_digit_def)

lemma padded_nonempty: "padStart0 k (string_of_nat n) \<noteq> []"
  by (simp add: padStart0_def string_of_nat_nonempty)

lemma digits_no_hex_prefix:
  assumes "list_all is_digit d"
  shows "\<not> startsWith d ''0x''" and "\<not> startsWith d ''0X''"
proof -
  have "CHR ''x'' \<notin> set d" "CHR ''X'' \<notin> set d"
    using assms by (auto simp: list_all_iff is_digit_def)
  moreover have "startsWith d ''0x'' \<Longrightarrow> CHR ''x'' \<in> set d"
    unfolding startsWith_def by (metis in_set_takeD list.set_intros(1,2))
  moreover have "startsWith d ''0X'' \<Longrightarrow> CHR ''X'' \<in> set d"
    unfolding startsWith_def by (metis in_set_takeD list.set_intros(1,2))
  ultimately show "\<not> startsWith d ''0x''" and "\<not> startsWith d ''0X''" by blast+
qed

lemma parseInt_padded: "parseInt (padStart0 k (string_of_nat n)) = Some (int n)"
proof -
  let ?d = "padStart0 k (string_of_nat n)"
  obtain c cs where d: "?d = c # cs" using padded_nonempty [of k n] by (cases ?d) auto
  with padded_digits [of k n] have c: "is_digit c" by simp
  then have ns: "\<not> is_space c" and nm: "c \<noteq> CHR ''-''" and np: "c \<noteq> CHR ''+''"
    by (auto simp: is_digit_def is_space_def)
  have pu: "parse_unsigned ?d = Some n"
    using digits_no_hex_prefix [OF padded_digits [of k n]] digits_prefix_padded [of k n]
    by (simp add: parse_unsigned_def)
  show ?thesis
    using ns nm np pu by (simp add: parseInt_def d)
qed

lemma split_dash_no_dash: "CHR ''-'' \<notin> set d \<Longrightarrow> split_dash d = [d]"
  by (induction d) auto

lemma split_dash_prefix:
  "CHR ''-'' \<notin> set a \<Longrightarrow> split_dash (a @ CHR ''-'' # b) = a # split_dash b"
  by (induction a) auto

lemma split_dash_pieces: "p \<in> set (split_dash s) \<Longrightarrow> CHR ''-'' \<notin> set p"
proof (induction s arbitrary: p)
  case Nil
  then show ?case by simp
next
  case (Cons c cs)
  then show ?case by (auto split: if_splits list.splits)
qed

lemma parseInt_nonneg:
  assumes "CHR ''-'' \<notin> set s" and "parseInt s = Some n"
  shows "0 \<le> n"
proof -
  have "set (dropWhile is_space s) \<subseteq> set s" by (auto dest: set_dropWhileD)
  with assms(1) have "CHR ''-'' \<notin> set (dropWhile is_space s)" by blast
  with assms(2) show ?thesis
    by (auto simp: parseInt_def Let_def split: list.splits if_splits)
qed

lemma id_number_nonneg:
  assumes "parseInt (elem_str (split_dash i) 1) = Some n"
  shows "0 \<le> n"
proof -
  have "CHR ''-'' \<notin> set (elem_str (split_dash i) 1)"
    using split_dash_pieces [of "split_dash i ! 1" i]
    by (auto simp: elem_str_def)
  then show ?thesis using assms by (rule parseInt_nonneg)
qed

lemma math_max_Some:
  assumes "vs \<noteq> []" and "list_all (\<lambda>v. v \<noteq> None) vs"
  shows "\<exists>m. math_max vs = Some m \<and> Some m \<in> set vs \<and> (\<forall>v \<in> set vs. \<exists>n. v = Some n \<and> n \<le> m)"
  using assms
proof (induction vs rule: math_max.induct)
  case 1
  then show ?case by simp
next
  case (2 x)
  then show ?case by auto
next
  case (3 x y ys)
  then obtain a where a: "x = Some a" by auto
  from 3 obtain m where m: "math_max (y # ys) = Some m" "Some m \<in> set (y # ys)"
    "\<forall>v \<in> set (y # ys). \<exists>n. v = Some n \<and> n \<le> m" by auto
  have mm: "math_max (x # y # ys) = Some (max a m)" using a m(1) by simp
  show ?case
    unfolding mm
    using a m(2,3) by (auto simp: max_def)
qed


lemma last_id_ok:
  assumes "ids_ok ids"
  shows "\<exists>m. last_id ids = Some m \<and> 0 \<le> m
            \<and> (\<forall>i \<in> set ids. \<exists>n. parseInt (elem_str (split_dash i) 1) = Some n \<and> n \<le> m)"
proof (cases "ids = []")
  case True
  then show ?thesis by (simp add: last_id_def)
next
  case False
  let ?vs = "map (\<lambda>i. parseInt (elem_str (split_dash i) 1)) ids"
  from assms have "list_all (\<lambda>v. v \<noteq> None) ?vs"
    by (simp add: ids_ok_def list_all_iff)
  with False math_max_Some [of ?vs] obtain m where
    m: "math_max ?vs = Some m" "Some m \<in> set ?vs"
       "\<forall>v \<in> set ?vs. \<exists>n. v = Some n \<and> n \<le> m" by auto
  from m(2) obtain i where "parseInt (elem_str (split_dash i) 1) = Some m" by auto
  then have "0 \<le> m" by (rule id_number_nonneg)
  with False m(1,3) show ?thesis by (auto simp: last_id_def)
qed

lemma next_id_fresh:
  assumes ok: "ids_ok ids" and pre: "CHR ''-'' \<notin> set pre"
  shows "ids_ok (ids @ [next_id (pre @ ''-'') ids])"
proof -
  from last_id_ok [OF ok] obtain m where m: "last_id ids = Some m" "0 \<le> m"
    and le: "\<forall>i \<in> set ids. \<exists>n. parseInt (elem_str (split_dash i) 1) = Some n \<and> n \<le> m"
    by blast
  let ?d = "padStart0 4 (string_of_nat (nat (m + 1)))"
  have new: "next_id (pre @ ''-'') ids = pre @ CHR ''-'' # ?d"
    using m by (simp add: next_id_def string_of_num_def string_of_int_def)
  have nd: "CHR ''-'' \<notin> set ?d"
    using padded_digits [of 4 "nat (m + 1)"] by (auto simp: list_all_iff is_digit_def)
  have "split_dash (pre @ CHR ''-'' # ?d) = [pre, ?d]"
    using pre nd by (simp add: split_dash_prefix split_dash_no_dash)
  then have p: "parseInt (elem_str (split_dash (next_id (pre @ ''-'') ids)) 1) = Some (m + 1)"
    using m(2) by (simp add: new elem_str_def parseInt_padded)
  have "next_id (pre @ ''-'') ids \<notin> set ids"
  proof
    assume "next_id (pre @ ''-'') ids \<in> set ids"
    with le p show False by force
  qed
  with ok p show ?thesis by (simp add: ids_ok_def)
qed

text \<open>Every operation on bills keeps the bill ids well formed and distinct.\<close>

lemma generateBill_ids_ok:
  assumes "ids_ok (map bill_id (bills s))"
  shows "ids_ok (map bill_id (bills (snd (generateBill s e tenantId month kwh cubic))))"
proof (cases "getBillForMonth s tenantId month")
  case None
  then have "map bill_id (bills (snd (generateBill s e tenantId month kwh cubic)))
               = map bill_id (bills s) @ [next_id (''BILL'' @ ''-'') (map bill_id (bills s))]"
    by (simp add: generateBill_def getBillForMonth_def getAllBills_def Let_def generateBillId_def)
  with next_id_fresh [OF assms, of "''BILL''"] show ?thesis by simp
next
  case (Some x)
  then have "map bill_id (bills (snd (generateBill s e tenantId month kwh cubic)))
               = map bill_id (bills s)"
    by (simp add: generateBill_def getBillForMonth_def getAllBills_def Let_def map_key_assign)
  with assms show ?thesis by simp
qed

lemma updateBillStatus_ids:
  "map bill_id (bills (snd (updateBillStatus s billId a p))) = map bill_id (bills s)"
proof (cases "find (\<lambda>b. bill_id b = billId) (bills s)")
  case None
  then show ?thesis by (simp add: updateBillStatus_def getAllBills_def Let_def)
next
  case (Some b)
  then have "bill_id (bill_apply b a p) = billId"
    by (auto simp: bill_apply_keeps dest: find_SomeD)
  with Some show ?thesis
    by (simp add: updateBillStatus_def getAllBills_def Let_def map_key_assign)
qed

lemma getRentStatus_ids_ok:
  assumes "ids_ok (map rs_id (rent_statuses s))"
  shows "ids_ok (map rs_id (rent_statuses (snd (getRentStatus s e tenantId month))))"
proof (cases "rentStatusFor s tenantId month")
  case None
  then have "map rs_id (rent_statuses (snd (getRentStatus s e tenantId month)))
               = map rs_id (rent_statuses s) @ [next_id (''RENT'' @ ''-'') (map rs_id (rent_statuses s))]"
    by (simp add: getRentStatus_def rentStatusFor_def getAllRentStatuses_def Let_def
          generateRentStatusId_def)
  with next_id_fresh [OF assms, of "''RENT''"] show ?thesis by simp
next
  case (Some x)
  then show ?thesis
    using assms by (simp add: getRentStatus_def rentStatusFor_def getAllRentStatuses_def)
qed

lemma ids_ok_empty: "ids_ok []"
  by (simp add: ids_ok_def)


lemma updateRentStatus_ids:
  "map rs_id (rent_statuses (snd (updateRentStatus s e tenantId month a p)))
     = map rs_id (rent_statuses s)"
proof -
  obtain st s1 where g: "(case find (\<lambda>x. rs_tenantId x = tenantId \<and> rs_month x = month)
                                 (rent_statuses s) of
                            Some x \<Rightarrow> (x, s)
                          | None \<Rightarrow> getRentStatus s e tenantId month) = (st, s1)"
    by (cases "case find (\<lambda>x. rs_tenantId x = tenantId \<and> rs_month x = month)
                                 (rent_statuses s) of
                            Some x \<Rightarrow> (x, s)
                          | None \<Rightarrow> getRentStatus s e tenantId month") auto
  have "rent_statuses (snd (updateRentStatus s e tenantId month a p))
          = assign_at (rent_statuses s)
              (findIndex (\<lambda>x. rs_id x = rs_id (rent_apply st a p)) (rent_statuses s))
              (rent_apply st a p)"
    using g by (simp add: updateRentStatus_def getAllRentStatuses_def Let_def)
  then show ?thesis by (simp add: map_key_assign)
qed


lemma findIndex_None: "\<forall>x \<in> set xs. \<not> P x \<Longrightarrow> findIndex P xs = None"
  by (induction xs) auto

text \<open>
  When no status of the tenant and month is stored, the status that \<open>getRentStatus\<close>
  creates for \<open>updateRentStatus\<close> is not in the list that \<open>updateRentStatus\<close> stores:
  the stored list is the one from before the call, and the payment is not recorded.
\<close>

lemma updateRentStatus_unstored:
  assumes none: "rentStatusFor s tenantId month = None"
    and ok: "ids_ok (map rs_id (rent_statuses s))"
  shows "rent_statuses (snd (updateRentStatus s e tenantId month a p)) = rent_statuses s"
proof -
  let ?new = "next_id (''RENT'' @ ''-'') (map rs_id (rent_statuses s))"
  from none have f: "find (\<lambda>x. rs_tenantId x = tenantId \<and> rs_month x = month) (rent_statuses s) = None"
    by (simp add: rentStatusFor_def getAllRentStatuses_def)
  from next_id_fresh [OF ok, of "''RENT''"] have "?new \<notin> set (map rs_id (rent_statuses s))"
    by (simp add: ids_ok_def)
  then have "\<forall>x \<in> set (rent_statuses s). rs_id x \<noteq> ?new" by force
  then have "findIndex (\<lambda>x. rs_id x = ?new) (rent_statuses s) = None"
    by (rule findIndex_None)
  then show ?thesis
    using f
    by (simp add: updateRentStatus_def getRentStatus_def getAllRentStatuses_def Let_def
          generateRentStatusId_def rent_apply_keeps assign_at_def)
qed


lemma ids_ok_distinct: "ids_ok ids \<Longrightarrow> distinct ids"
  by (simp add: ids_ok_def)

end
